theory Spec2Isabelle
  imports Complex_Main "HOL-Library.Monad_Syntax"
begin

section \<open>JavaScript values as the server handles them\<close>

text \<open>
  The model follows the server with the text format (the second server of
  \<open>src/unnamed/part_000\<close>). Its first server and \<open>src/server-example.js\<close> have the same
  store and the same queries, without the text format; \<open>server-example.js\<close> keeps 100
  records where the others keep \<open>MAX_STORED_DATA\<close>.

  The server keeps request bodies as they arrive: JSON objects, or the object built by
  \<open>parseStandardFormat\<close>. A JavaScript number is an exact real or \<open>NaN\<close>; the rounding
  of IEEE doubles and the infinities are not represented. A string is a list of 8-bit code
  units. An object is an association list with distinct keys, in insertion order.
\<close>

datatype jsnum = NaN | Fin real

datatype jsval =
    JUndefined
  | JNull
  | JBool bool
  | JNum jsnum
  | JStr string
  | JArr "jsval list"
  | JObj "(string \<times> jsval) list"

type_synonym obj = "(string \<times> jsval) list"

datatype js_error = TypeError

text \<open>\<open>o.k\<close> on an object: the own property, or \<open>undefined\<close>.\<close>

definition obj_get :: "obj \<Rightarrow> string \<Rightarrow> jsval" where
  "obj_get ob k = (case map_of ob k of None \<Rightarrow> JUndefined | Some v \<Rightarrow> v)"

text \<open>\<open>o.k = v\<close>: overwrite the property in place, or append it.\<close>

fun obj_set :: "obj \<Rightarrow> string \<Rightarrow> jsval \<Rightarrow> obj" where
  "obj_set [] k v = [(k, v)]"
| "obj_set ((k', v') # ob) k v = (if k' = k then (k, v) # ob else (k', v') # obj_set ob k v)"

text \<open>
  \<open>x.k\<close> on any value, for the data property names the handlers read. Reading a property
  of \<open>undefined\<close> or \<open>null\<close> throws a TypeError (\<open>None\<close>); arrays and strings have
  \<open>length\<close>; numbers and booleans have none of the names read here.
\<close>

fun getp :: "jsval \<Rightarrow> string \<Rightarrow> jsval option" where
  "getp JUndefined k = None"
| "getp JNull k = None"
| "getp (JObj ob) k = Some (obj_get ob k)"
| "getp (JArr xs) k = Some (if k = ''length'' then JNum (Fin (real (length xs))) else JUndefined)"
| "getp (JStr s) k = Some (if k = ''length'' then JNum (Fin (real (length s))) else JUndefined)"
| "getp (JBool b) k = Some JUndefined"
| "getp (JNum n) k = Some JUndefined"

text \<open>Truthiness, as \<open>?:\<close> and \<open>||\<close> test it.\<close>

fun truthy :: "jsval \<Rightarrow> bool" where
  "truthy JUndefined = False"
| "truthy JNull = False"
| "truthy (JBool b) = b"
| "truthy (JNum NaN) = False"
| "truthy (JNum (Fin x)) = (x \<noteq> 0)"
| "truthy (JStr s) = (s \<noteq> [])"
| "truthy (JArr xs) = True"
| "truthy (JObj ob) = True"

text \<open>
  Interpolating a value into a template literal converts it to a string. For data that
  came from JSON this throws exactly when an object carries an own \<open>toString\<close> property
  (never callable, and the inherited \<open>valueOf\<close> returns the object itself); an array joins
  the conversions of its elements, skipping \<open>undefined\<close> and \<open>null\<close>.
\<close>

fun to_string_throws :: "jsval \<Rightarrow> bool" where
  "to_string_throws (JObj ob) = (''toString'' \<in> set (map fst ob))"
| "to_string_throws (JArr xs) = (\<exists>x \<in> set xs. to_string_throws x)"
| "to_string_throws v = False"

text \<open>\<open>x.includes(...)\<close> is callable on strings and arrays only.\<close>

fun includes_callable :: "jsval \<Rightarrow> bool" where
  "includes_callable (JStr s) = True"
| "includes_callable (JArr xs) = True"
| "includes_callable v = False"

section \<open>Strings\<close>

definition is_digit :: "char \<Rightarrow> bool" where
  "is_digit c = (c \<in> set ''0123456789'')"

text \<open>\<open>\s\<close> and \<open>trim\<close>: tab, LF, VT, FF, CR, space, and the no-break space.\<close>

definition is_space :: "char \<Rightarrow> bool" where
  "is_space c = (of_char c \<in> {9, 10, 11, 12, 13, 32, 160 :: nat})"

definition js_trim :: "string \<Rightarrow> string" where
  "js_trim s = rev (dropWhile is_space (rev (dropWhile is_space s)))"

fun split_on :: "char \<Rightarrow> string \<Rightarrow> string list" where
  "split_on c [] = [[]]"
| "split_on c (x # xs) =
     (if x = c then [] # split_on c xs
      else (case split_on c xs of [] \<Rightarrow> [[x]] | p # ps \<Rightarrow> (x # p) # ps))"

definition substr :: "nat \<Rightarrow> nat \<Rightarrow> string \<Rightarrow> string" where
  "substr start len s = take len (drop start s)"

definition digit_char :: "nat \<Rightarrow> char" where
  "digit_char d = ''0123456789'' ! d"

fun show_nat :: "nat \<Rightarrow> string" where
  "show_nat n = (if n < 10 then [digit_char n] else show_nat (n div 10) @ [digit_char (n mod 10)])"

declare show_nat.simps [simp del]

subsection \<open>parseInt\<close>

text \<open>
  \<open>parseInt(s)\<close> with no radix: skip leading white space, read a sign, take radix 16 after
  a \<open>0x\<close> prefix and 10 otherwise, read the longest run of digits; no digit gives \<open>NaN\<close>.
\<close>

definition digit_val :: "char \<Rightarrow> nat option" where
  "digit_val c =
     (if c \<in> set ''0123456789'' then Some (of_char c - 48)
      else if c \<in> set ''abcdef'' then Some (of_char c - 87)
      else if c \<in> set ''ABCDEF'' then Some (of_char c - 55)
      else None)"

definition is_radix_digit :: "nat \<Rightarrow> char \<Rightarrow> bool" where
  "is_radix_digit r c = (case digit_val c of None \<Rightarrow> False | Some d \<Rightarrow> d < r)"

definition digits_value :: "nat \<Rightarrow> string \<Rightarrow> nat" where
  "digits_value r ds = foldl (\<lambda>acc c. acc * r + the (digit_val c)) 0 ds"

definition parseInt :: "string \<Rightarrow> jsnum" where
  "parseInt str =
     (let s0 = dropWhile is_space str;
          neg = (take 1 s0 = ''-'');
          s1 = (if take 1 s0 = ''-'' \<or> take 1 s0 = ''+'' then drop 1 s0 else s0);
          hex = (take 2 s1 = ''0x'' \<or> take 2 s1 = ''0X'');
          r = (if hex then 16 else 10);
          s2 = (if hex then drop 2 s1 else s1);
          z = takeWhile (is_radix_digit r) s2
      in if z = [] then NaN
         else Fin (if neg then - real (digits_value r z) else real (digits_value r z)))"

section \<open>The environment of one request\<close>

text \<open>
  What a handler reads from outside during one request: the clock (\<open>Date.now()\<close> and
  \<open>new Date().toISOString()\<close>), the successive draws of \<open>Math.random()\<close>, the deployment
  region, and two library functions whose results are doubles or their renderings:
  \<open>Number.prototype.toString(36)\<close> and \<open>parseFloat\<close>.
\<close>

record env =
  date_now :: nat
  iso_now :: string
  random :: "nat \<Rightarrow> real"
  toString36 :: "real \<Rightarrow> string"
  parseFloat :: "string \<Rightarrow> jsnum"
  railway_region :: "string option"

definition show_int :: "int \<Rightarrow> string" where
  "show_int i = (if i < 0 then ''-'' @ show_nat (nat (- i)) else show_nat (nat i))"

text \<open>\<open>Math.random().toString(36).substr(2, 9)\<close>, with the \<open>k\<close>-th draw.\<close>

definition random_suffix :: "env \<Rightarrow> nat \<Rightarrow> string" where
  "random_suffix e k = substr 2 9 (toString36 e (random e k))"

section \<open>The text format\<close>

subsection \<open>The pattern of a line\<close>

text \<open>
  \<open>line.match(/(\d+)\s*\*\s*\(([^)]+)\)/)\<close>. At one start position every quantifier of the
  pattern is followed by a character outside its class, so the greedy match is the only
  one: \<open>match_at\<close> returns the two groups of a match that starts at the head of the string,
  and what follows the match. The pattern is not anchored: \<open>re_match\<close> tries the start
  positions from the left and returns the groups of the first match.
\<close>

definition match_at :: "string \<Rightarrow> (string \<times> string \<times> string) option" where
  "match_at s =
     (let d = takeWhile is_digit s in
      if d = [] then None
      else case dropWhile is_space (dropWhile is_digit s) of
        [] \<Rightarrow> None
      | c1 # r1 \<Rightarrow>
          if c1 \<noteq> CHR ''*'' then None
          else case dropWhile is_space r1 of
            [] \<Rightarrow> None
          | c2 # r2 \<Rightarrow>
              if c2 \<noteq> CHR ''('' then None
              else let g = takeWhile (\<lambda>c. c \<noteq> CHR '')'') r2 in
                if g = [] then None
                else case dropWhile (\<lambda>c. c \<noteq> CHR '')'') r2 of
                  [] \<Rightarrow> None
                | c3 # r3 \<Rightarrow> Some (d, g, r3))"

fun re_match :: "string \<Rightarrow> (string \<times> string) option" where
  "re_match [] = None"
| "re_match (c # cs) =
     (case match_at (c # cs) of Some (d, g, r) \<Rightarrow> Some (d, g) | None \<Rightarrow> re_match cs)"

subsection \<open>generateRandomColor\<close>

definition hsl :: "int \<Rightarrow> int \<Rightarrow> int \<Rightarrow> string" where
  "hsl hue saturation lightness =
     ''hsl('' @ show_int hue @ '', '' @ show_int saturation @ ''%, '' @ show_int lightness @ ''%)''"

text \<open>Three draws, starting with the \<open>k\<close>-th; returns the colour and the next draw's index.\<close>

definition generateRandomColor :: "env \<Rightarrow> nat \<Rightarrow> string \<times> nat" where
  "generateRandomColor e k =
     (let hue = \<lfloor>random e k * 360\<rfloor>;
          saturation = \<lfloor>random e (k + 1) * 40\<rfloor> + 60;
          lightness = \<lfloor>random e (k + 2) * 30\<rfloor> + 50
      in (hsl hue saturation lightness, k + 3))"

subsection \<open>parseStandardFormat\<close>

fun num_add :: "jsnum \<Rightarrow> jsnum \<Rightarrow> jsnum" where
  "num_add (Fin a) (Fin b) = Fin (a + b)"
| "num_add a b = NaN"

definition population :: "jsnum \<Rightarrow> jsnum list \<Rightarrow> string \<Rightarrow> jsval" where
  "population count params color =
     JObj [(''count'', JNum count),
           (''parameters'', JObj [
              (''neighborhoodRadius'', JNum (params ! 0)),
              (''normalSpeed'', JNum (params ! 1)),
              (''maxSpeed'', JNum (params ! 2)),
              (''c1'', JNum (params ! 3)),
              (''c2'', JNum (params ! 4)),
              (''c3'', JNum (params ! 5)),
              (''c4'', JNum (params ! 6)),
              (''c5'', JNum (params ! 7)),
              (''color'', JStr color)])]"

text \<open>
  The body of the \<open>forEach\<close> callback. The state is the array \<open>populations\<close>, the running
  \<open>totalIndividuals\<close> and the index of the next random draw.
\<close>

definition parse_line :: "env \<Rightarrow> jsval list \<times> jsnum \<times> nat \<Rightarrow> string \<Rightarrow> jsval list \<times> jsnum \<times> nat" where
  "parse_line e st line =
     (case st of (populations, totalIndividuals, k) \<Rightarrow>
        (case re_match line of
           None \<Rightarrow> st
         | Some (m1, m2) \<Rightarrow>
             let count = parseInt m1;
                 params = map (\<lambda>p. parseFloat e (js_trim p)) (split_on CHR '','' m2)
             in if length params = 8
                then (case generateRandomColor e k of (color, k') \<Rightarrow>
                        (populations @ [population count params color],
                         num_add totalIndividuals count, k'))
                else st))"

definition text_lines :: "string \<Rightarrow> string list" where
  "text_lines textData =
     filter (\<lambda>line. js_trim line \<noteq> []) (split_on CHR 0x0A (js_trim textData))"

text \<open>Returns the record and the index of the next random draw.\<close>

definition parseStandardFormat :: "env \<Rightarrow> string \<Rightarrow> obj \<times> nat" where
  "parseStandardFormat e textData =
     (case foldl (parse_line e) ([], Fin 0, 0) (text_lines textData) of
        (populations, totalIndividuals, k) \<Rightarrow>
          ([(''sessionId'', JStr (''standard_'' @ show_nat (date_now e) @ ''_'' @ random_suffix e k)),
            (''timestamp'', JStr (iso_now e)),
            (''populations'', JArr populations),
            (''totalIndividuals'', JNum totalIndividuals),
            (''userAgent'', JStr ''Standard Format Parser''),
            (''format'', JStr ''standard'')], k + 1))"

text \<open>
  \<open>convertToStandardFormat\<close> writes every parameter with \<open>toFixed(2)\<close>, the decimal
  rendering of a double, and reads back with \<open>parseFloat\<close>, the nearest double of a
  decimal. Both are functions of the floating-point representation, which this model
  does not have; the function is not part of the model.
\<close>

section \<open>The handlers\<close>

text \<open>
  The store is the array \<open>swarmDataStore\<close>, newest first. A response is the status code
  with the object given to \<open>res.json\<close>. The message texts, Chinese in the source, are
  given by English glosses; the text of a caught error's message is the engine's.
\<close>

type_synonym response = "nat \<times> obj"

definition MAX_STORED_DATA :: nat where
  "MAX_STORED_DATA = 50"

definition server_error :: "js_error \<Rightarrow> response" where
  "server_error err =
     (500, [(''success'', JBool False), (''message'', JStr ''server error: TypeError'')])"

subsection \<open>POST /api/swarm-data\<close>

text \<open>
  The body is a string (\<open>express.text\<close>) or the object that \<open>express.json\<close> parsed. A
  JSON array, which \<open>express.json\<close> accepts as well, is handled like an object without
  properties and is not a case of its own here.
\<close>

datatype body = BText string | BJson obj

text \<open>The record and the index of the next random draw, before it is stamped.\<close>

definition swarm_data :: "env \<Rightarrow> body \<Rightarrow> obj \<times> nat" where
  "swarm_data e b = (case b of BText t \<Rightarrow> parseStandardFormat e t | BJson ob \<Rightarrow> (ob, 0))"

text \<open>The record as stored: with \<open>serverTimestamp\<close> and \<open>id\<close> assigned.\<close>

definition stamped :: "env \<Rightarrow> body \<Rightarrow> obj" where
  "stamped e b =
     (case swarm_data e b of (swarmData, k) \<Rightarrow>
        obj_set (obj_set swarmData ''serverTimestamp'' (JStr (iso_now e)))
          ''id'' (JStr (show_nat (date_now e) @ ''_'' @ random_suffix e k)))"

text \<open>
  \<open>unshift\<close>, then the cut to the capacity. The capacity is \<open>MAX_STORED_DATA\<close> here and
  the literal 100 in \<open>server-example.js\<close>.
\<close>

definition store_insert :: "nat \<Rightarrow> obj \<Rightarrow> obj list \<Rightarrow> obj list" where
  "store_insert cap r store =
     (let store1 = r # store in if length store1 > cap then take cap store1 else store1)"

text \<open>
  The \<open>console.log\<close> lines after the insertion. They print nothing the model keeps, but
  they throw: on \<open>swarmData.populations.length\<close> when \<open>populations\<close> is \<open>undefined\<close> or
  \<open>null\<close>, on \<open>swarmData.userAgent.includes\<close> when \<open>userAgent\<close> is truthy and has no such
  method, and where a value cannot be converted to a string.
\<close>

definition log_received :: "obj \<Rightarrow> js_error option" where
  "log_received swarmData =
     (if to_string_throws (obj_get swarmData ''sessionId'') then Some TypeError
      else case getp (obj_get swarmData ''populations'') ''length'' of
        None \<Rightarrow> Some TypeError
      | Some n \<Rightarrow>
          if to_string_throws n then Some TypeError
          else if to_string_throws (obj_get swarmData ''totalIndividuals'') then Some TypeError
          else if truthy (obj_get swarmData ''userAgent'')
                  \<and> \<not> includes_callable (obj_get swarmData ''userAgent'') then Some TypeError
          else None)"

definition ingest :: "nat \<Rightarrow> env \<Rightarrow> body \<Rightarrow> obj list \<Rightarrow> response \<times> obj list" where
  "ingest cap e b store =
     (let swarmData = stamped e b;
          store' = store_insert cap swarmData store
      in case log_received swarmData of
           Some err \<Rightarrow> (server_error err, store')
         | None \<Rightarrow>
             ((200, [(''success'', JBool True),
                     (''message'', JStr ''data received''),
                     (''dataId'', obj_get swarmData ''id''),
                     (''timestamp'', obj_get swarmData ''serverTimestamp''),
                     (''format'', JStr (case b of BText t \<Rightarrow> ''standard'' | BJson ob \<Rightarrow> ''json'')),
                     (''serverInfo'', JObj [
                        (''environment'', JStr ''Railway''),
                        (''region'', JStr (case railway_region e of None \<Rightarrow> ''unknown''
                                           | Some r \<Rightarrow> if r = [] then ''unknown'' else r)),
                        (''storedCount'', JNum (Fin (real (length store'))))])]),
              store'))"

text \<open>A run of requests, each with its own environment, oldest first.\<close>

fun ingest_all :: "nat \<Rightarrow> (env \<times> body) list \<Rightarrow> obj list \<Rightarrow> obj list" where
  "ingest_all cap [] store = store"
| "ingest_all cap ((e, b) # reqs) store = ingest_all cap reqs (snd (ingest cap e b store))"

definition success :: "response \<Rightarrow> jsval" where
  "success r = obj_get (snd r) ''success''"

subsection \<open>GET /api/swarm-data/latest\<close>

text \<open>\<open>x.map(f)\<close> is callable on an array only.\<close>

fun array_elems :: "jsval \<Rightarrow> jsval list option" where
  "array_elems (JArr xs) = Some xs"
| "array_elems v = None"

definition project_population :: "jsval \<Rightarrow> jsval option" where
  "project_population pop = do {
     count \<leftarrow> getp pop ''count'';
     ps1 \<leftarrow> getp pop ''parameters'';
     neighborhoodRadius \<leftarrow> getp ps1 ''neighborhoodRadius'';
     normalSpeed \<leftarrow> getp ps1 ''normalSpeed'';
     maxSpeed \<leftarrow> getp ps1 ''maxSpeed'';
     c1 \<leftarrow> getp ps1 ''c1'';
     c2 \<leftarrow> getp ps1 ''c2'';
     c3 \<leftarrow> getp ps1 ''c3'';
     c4 \<leftarrow> getp ps1 ''c4'';
     c5 \<leftarrow> getp ps1 ''c5'';
     color \<leftarrow> getp ps1 ''color'';
     Some (JObj [(''count'', count),
                 (''neighborhoodRadius'', neighborhoodRadius),
                 (''normalSpeed'', normalSpeed),
                 (''maxSpeed'', maxSpeed),
                 (''cohesion'', c1),
                 (''alignment'', c2),
                 (''separation'', c3),
                 (''randomness'', c4),
                 (''speedControl'', c5),
                 (''color'', color)])
   }"

definition project_populations :: "jsval \<Rightarrow> jsval list option" where
  "project_populations v = do {
     pops \<leftarrow> array_elems v;
     those (map project_population pops)
   }"

definition latest :: "obj list \<Rightarrow> response" where
  "latest store =
     (case store of
        [] \<Rightarrow> (200, [(''success'', JBool False), (''message'', JStr ''no data yet''),
                      (''data'', JNull)])
      | latestData # older \<Rightarrow>
          (case project_populations (obj_get latestData ''populations'') of
             None \<Rightarrow> server_error TypeError
           | Some pops \<Rightarrow>
               (200, [(''success'', JBool True),
                      (''timestamp'', obj_get latestData ''serverTimestamp''),
                      (''sessionId'', obj_get latestData ''sessionId''),
                      (''totalParticles'', obj_get latestData ''totalIndividuals''),
                      (''populations'', JArr pops)])))"

subsection \<open>GET /api/swarm-data/history\<close>

text \<open>
  \<open>parseInt(req.query.limit) || 10\<close>. The parameter is a string, or \<open>undefined\<close> when it
  is omitted, which \<open>parseInt\<close> reads as the string of that name. \<open>NaN\<close> and 0 are falsy.
\<close>

definition history_limit :: "string option \<Rightarrow> real" where
  "history_limit q =
     (case parseInt (case q of None \<Rightarrow> ''undefined'' | Some s \<Rightarrow> s) of
        NaN \<Rightarrow> 10
      | Fin x \<Rightarrow> if x = 0 then 10 else x)"

text \<open>
  \<open>xs.slice(0, end)\<close>: the end is truncated to an integer; a negative end counts from the
  end of the array. The handler passes \<open>Math.min(limit, length)\<close>; \<open>server-example.js\<close>
  passes \<open>limit\<close>, which \<open>slice\<close> cuts to the length itself.
\<close>

definition slice0 :: "'a list \<Rightarrow> real \<Rightarrow> 'a list" where
  "slice0 xs end =
     (let len = int (length xs);
          rel = (if end < 0 then \<lceil>end\<rceil> else \<lfloor>end\<rfloor>);
          fin = (if rel < 0 then max (len + rel) 0 else min rel len)
      in take (nat fin) xs)"

definition history_records :: "string option \<Rightarrow> obj list \<Rightarrow> obj list" where
  "history_records q store =
     slice0 store (min (history_limit q) (real (length store)))"

definition history :: "string option \<Rightarrow> obj list \<Rightarrow> response" where
  "history q store =
     (let h = history_records q store
      in (200, [(''success'', JBool True),
                (''count'', JNum (Fin (real (length h)))),
                (''total'', JNum (Fin (real (length store)))),
                (''data'', JArr (map JObj h))]))"

subsection \<open>GET /api/stats\<close>







section \<open>The properties, as the specification words them\<close>

text \<open>
  The specification's pattern \<open>^\s*(\d+)\s*\*\s*\(([^)]+)\)\s*$\<close>: the match starts after
  the leading white space, and only white space follows it.
\<close>

definition spec_line_match :: "string \<Rightarrow> (string \<times> string) option" where
  "spec_line_match line =
     (case match_at (dropWhile is_space line) of
        None \<Rightarrow> None
      | Some (d, g, r) \<Rightarrow> if list_all is_space r then Some (d, g) else None)"

text \<open>A conforming line: the anchored pattern, and eight tokens that are all numeric.\<close>

definition spec_conforming :: "env \<Rightarrow> string \<Rightarrow> bool" where
  "spec_conforming e line =
     (case spec_line_match line of
        None \<Rightarrow> False
      | Some (d, g) \<Rightarrow>
          length (split_on CHR '','' g) = 8
          \<and> list_all (\<lambda>p. parseFloat e (js_trim p) \<noteq> NaN) (split_on CHR '','' g))"

text \<open>The test the parser makes: the pattern occurs, and its group has eight pieces.\<close>

definition line_accepted :: "string \<Rightarrow> bool" where
  "line_accepted line =
     (case re_match line of
        None \<Rightarrow> False
      | Some (m1, m2) \<Rightarrow> length (split_on CHR '','' m2) = 8)"

definition line_count :: "string \<Rightarrow> jsnum" where
  "line_count line = (case re_match line of None \<Rightarrow> NaN | Some (m1, m2) \<Rightarrow> parseInt m1)"

definition line_params :: "env \<Rightarrow> string \<Rightarrow> jsnum list" where
  "line_params e line =
     (case re_match line of
        None \<Rightarrow> []
      | Some (m1, m2) \<Rightarrow> map (\<lambda>p. parseFloat e (js_trim p)) (split_on CHR '','' m2))"

text \<open>The population that an accepted line contributes, given its colour.\<close>

definition line_population :: "env \<Rightarrow> string \<Rightarrow> string \<Rightarrow> jsval" where
  "line_population e line color = population (line_count line) (line_params e line) color"






text \<open>
  A \<open>populations\<close> value that the projection of the latest record can read: an array
  whose entries each carry a \<open>parameters\<close> value other than \<open>undefined\<close> and \<open>null\<close>.
\<close>

definition has_parameters :: "jsval \<Rightarrow> bool" where
  "has_parameters pop =
     (case getp pop ''parameters'' of
        None \<Rightarrow> False
      | Some ps \<Rightarrow> ps \<noteq> JUndefined \<and> ps \<noteq> JNull)"

definition projectable :: "jsval \<Rightarrow> bool" where
  "projectable v = (case v of JArr pops \<Rightarrow> list_all has_parameters pops | _ \<Rightarrow> False)"



text \<open>
  An environment for the examples: a fixed clock, every random draw one half, and a
  \<open>parseFloat\<close> that reads plain runs of decimal digits and gives \<open>NaN\<close> otherwise, which
  is what JavaScript's does on the tokens of the examples.
\<close>

definition example_env :: env where
  "example_env =
     \<lparr>date_now = 1700000000000,
      iso_now = ''2024-01-01T00:00:00.000Z'',
      random = (\<lambda>k. 1 / 2),
      toString36 = (\<lambda>x. ''0.i''),
      parseFloat = (\<lambda>s. if s \<noteq> [] \<and> list_all is_digit s then Fin (real (digits_value 10 s)) else NaN),
      railway_region = None\<rparr>"

section \<open>The store\<close>

lemma store_insert_take: "store_insert cap r store = take cap (r # store)"
  by (simp add: store_insert_def Let_def)

lemma snd_ingest: "snd (ingest cap e b store) = take cap (stamped e b # store)"
  by (simp add: ingest_def Let_def store_insert_take split: option.splits)

lemma take_append_take: "take n (xs @ take n ys) = take n (xs @ ys)"
  by (simp add: min_def)

lemma ingest_all_take:
  assumes "length store \<le> cap"
  shows "ingest_all cap reqs store = take cap (rev (map (\<lambda>(e, b). stamped e b) reqs) @ store)"
  using assms
proof (induction reqs arbitrary: store)
  case Nil
  then show ?case by simp
next
  case (Cons q reqs)
  obtain e b where q: "q = (e, b)" by (cases q)
  have "ingest_all cap (q # reqs) store = ingest_all cap reqs (take cap (stamped e b # store))"
    by (simp add: q snd_ingest)
  also have "\<dots> = take cap (rev (map (\<lambda>(e, b). stamped e b) reqs) @ take cap (stamped e b # store))"
    by (rule Cons.IH) simp
  also have "\<dots> = take cap (rev (map (\<lambda>(e, b). stamped e b) reqs) @ (stamped e b # store))"
    by (rule take_append_take)
  finally show ?case by (simp add: q)
qed

text \<open>
  Claim C3. After \<open>N\<close> ingestions into an empty store of capacity \<open>C\<close> the store is the
  list of the stamped records, newest first, cut to \<open>C\<close>: its size is \<open>min N C\<close>, its
  positions hold the most recent records in reverse insertion order, and the record
  ingested first is gone once \<open>N\<close> exceeds \<open>C\<close>. With a capacity of at least one, every
  insertion leaves its record at position 0. The handler inserts before it can fail, so
  this holds for every run of requests, and so for every run of successful ones.
\<close>

theorem ingest_all_retention:
  "ingest_all cap reqs [] = take cap (rev (map (\<lambda>(e, b). stamped e b) reqs))
   \<and> length (ingest_all cap reqs []) = min (length reqs) cap
   \<and> (0 < cap \<longrightarrow>
        (\<forall>e b store. snd (ingest cap e b store) \<noteq> []
                      \<and> snd (ingest cap e b store) ! 0 = stamped e b))"
proof -
  have a: "ingest_all cap reqs [] = take cap (rev (map (\<lambda>(e, b). stamped e b) reqs))"
    using ingest_all_take [of "[]" cap reqs] by simp
  have b: "length (ingest_all cap reqs []) = min (length reqs) cap"
    by (simp add: a)
  have c: "snd (ingest cap e b store) \<noteq> [] \<and> snd (ingest cap e b store) ! 0 = stamped e b"
    if "0 < cap" for e b store
    using that by (cases cap) (simp_all add: snd_ingest)
  show ?thesis using a b c by blast
qed

text \<open>Three records into a store of capacity two: the first one is evicted.\<close>

theorem ingest_all_retention_witness:
  "0 < (2::nat)
   \<and> ingest_all 2
        [(example_env, BJson [(''sessionId'', JStr ''a''), (''populations'', JArr [])]),
         (example_env, BJson [(''sessionId'', JStr ''b''), (''populations'', JArr [])]),
         (example_env, BJson [(''sessionId'', JStr ''c''), (''populations'', JArr [])])] []
      = [stamped example_env (BJson [(''sessionId'', JStr ''c''), (''populations'', JArr [])]),
         stamped example_env (BJson [(''sessionId'', JStr ''b''), (''populations'', JArr [])])]
   \<and> snd (ingest 2 example_env (BJson [(''sessionId'', JStr ''c''), (''populations'', JArr [])]) []) ! 0
      = stamped example_env (BJson [(''sessionId'', JStr ''c''), (''populations'', JArr [])])"
  using ingest_all_retention [of 2
        "[(example_env, BJson [(''sessionId'', JStr ''a''), (''populations'', JArr [])]),
         (example_env, BJson [(''sessionId'', JStr ''b''), (''populations'', JArr [])]),
         (example_env, BJson [(''sessionId'', JStr ''c''), (''populations'', JArr [])])]"]
  by simp

section \<open>The text parser\<close>

lemma digit_not_space: "is_digit c \<Longrightarrow> \<not> is_space c"
  by (auto simp: is_digit_def is_space_def)









text \<open>The callback of the loop, by cases on the test it makes.\<close>

lemma parse_line_step:
  "parse_line e (pops, tot, k) line =
     (if line_accepted line
      then (pops @ [population (line_count line) (line_params e line) (fst (generateRandomColor e k))],
            num_add tot (line_count line), k + 3)
      else (pops, tot, k))"
  by (auto simp: parse_line_def line_accepted_def line_count_def line_params_def Let_def
        generateRandomColor_def split: option.splits prod.splits)

lemma parse_fold_populations:
  "foldl (parse_line e) ([], Fin 0, 0) ls = (pops, tot, k) \<Longrightarrow>
   \<exists>colors. length colors = length (filter line_accepted ls)
     \<and> pops = map2 (line_population e) (filter line_accepted ls) colors"
proof (induction ls arbitrary: pops tot k rule: rev_induct)
  case Nil
  then show ?case by simp
next
  case (snoc l ls)
  obtain pops0 tot0 k0 where st: "foldl (parse_line e) ([], Fin 0, 0) ls = (pops0, tot0, k0)"
    by (cases "foldl (parse_line e) ([], Fin 0, 0) ls") auto
  from snoc.IH [OF st] obtain colors where
    c: "length colors = length (filter line_accepted ls)"
       "pops0 = map2 (line_population e) (filter line_accepted ls) colors"
    by blast
  have step: "parse_line e (pops0, tot0, k0) l = (pops, tot, k)"
    using snoc.prems st by simp
  show ?case
  proof (cases "line_accepted l")
    case True
    with step have "pops = pops0 @ [line_population e l (fst (generateRandomColor e k0))]"
      by (simp add: parse_line_step line_population_def)
    with c True have
      "length (colors @ [fst (generateRandomColor e k0)]) = length (filter line_accepted (ls @ [l]))
       \<and> pops = map2 (line_population e) (filter line_accepted (ls @ [l]))
                  (colors @ [fst (generateRandomColor e k0)])"
      by simp
    then show ?thesis by blast
  next
    case False
    with step have "pops = pops0" by (simp add: parse_line_step)
    with c False show ?thesis by auto
  qed
qed







lemma obj_get_set: "obj_get (obj_set ob k v) k' = (if k' = k then v else obj_get ob k')"
  by (induction ob) (auto simp: obj_get_def)

lemma stamped_fields:
  "k' \<noteq> ''serverTimestamp'' \<Longrightarrow> k' \<noteq> ''id'' \<Longrightarrow>
   obj_get (stamped e b) k' = obj_get (fst (swarm_data e b)) k'"
  by (simp add: stamped_def obj_get_set split: prod.splits)

lemma parse_fields:
  assumes "foldl (parse_line e) ([], Fin 0, 0) (text_lines t) = (pops, tot, k)"
  shows "obj_get (fst (parseStandardFormat e t)) ''populations'' = JArr pops"
    and "obj_get (fst (parseStandardFormat e t)) ''totalIndividuals'' = JNum tot"
    and "obj_get (fst (parseStandardFormat e t)) ''sessionId''
           = JStr (''standard_'' @ show_nat (date_now e) @ ''_'' @ random_suffix e k)"
    and "obj_get (fst (parseStandardFormat e t)) ''userAgent'' = JStr ''Standard Format Parser''"
  using assms by (simp_all add: parseStandardFormat_def obj_get_def)




section \<open>Totals of stored records\<close>






section \<open>Text payloads in which no line matches\<close>





section \<open>Which lines produce a population\<close>

lemma match_at_Nil: "match_at [] = None"
  by (simp add: match_at_def)

lemma match_at_space: "is_space c \<Longrightarrow> match_at (c # cs) = None"
  using digit_not_space [of c] by (auto simp: match_at_def)

lemma re_match_skip_space: "re_match (dropWhile is_space line) = re_match line"
  by (induction line) (simp_all add: match_at_space)

lemma spec_match_found:
  assumes "spec_line_match line = Some (d, g)"
  shows "re_match line = Some (d, g)"
proof -
  from assms obtain r where m: "match_at (dropWhile is_space line) = Some (d, g, r)"
    by (auto simp: spec_line_match_def split: option.splits if_splits)
  then obtain c cs where s: "dropWhile is_space line = c # cs"
    by (cases "dropWhile is_space line") (simp_all add: match_at_Nil)
  have "re_match (dropWhile is_space line) = Some (d, g)"
    using m by (simp add: s)
  then show ?thesis by (simp add: re_match_skip_space)
qed

lemma spec_conforming_accepted: "spec_conforming e line \<Longrightarrow> line_accepted line"
  by (auto simp: spec_conforming_def line_accepted_def split: option.splits dest: spec_match_found)

text \<open>
  Claim C4, as stated, fails in both directions of its ``exactly when''. The parser's
  pattern is not anchored, so a line with text before (or after) the pattern produces a
  population although it does not match the anchored pattern; and the parser counts the
  pieces of the group without looking at them, so a line whose eight pieces are not
  numbers produces a population whose parameters are \<open>NaN\<close>.
\<close>

theorem unanchored_and_non_numeric_lines_parsed:
  "\<not> spec_conforming example_env ''x2 * (1,2,3,4,5,6,7,8)''
   \<and> fst (parse_line example_env ([], Fin 0, 0) ''x2 * (1,2,3,4,5,6,7,8)'')
       = [population (Fin 2) [Fin 1, Fin 2, Fin 3, Fin 4, Fin 5, Fin 6, Fin 7, Fin 8]
            ''hsl(180, 80%, 65%)'']
   \<and> \<not> spec_conforming example_env ''2 * (a,b,c,d,e,f,g,h)''
   \<and> fst (parse_line example_env ([], Fin 0, 0) ''2 * (a,b,c,d,e,f,g,h)'')
       = [population (Fin 2) [NaN, NaN, NaN, NaN, NaN, NaN, NaN, NaN] ''hsl(180, 80%, 65%)'']"
  by (simp add: spec_conforming_def spec_line_match_def match_at_def is_space_def is_digit_def
       parse_line_def Let_def example_env_def js_trim_def parseInt_def is_radix_digit_def
       digit_val_def digits_value_def generateRandomColor_def hsl_def show_int_def
       show_nat.simps digit_char_def)

text \<open>
  Claim C4, amended. A line produces a population exactly when the pattern
  \<open>(\d+)\s*\*\s*\(([^)]+)\)\<close> occurs in it and the group of its leftmost occurrence splits
  on commas into exactly eight pieces, numeric or not; every other line is skipped. So
  the populations of the record are those of the accepted lines, in order, each with the
  count and the parameters read from its line. Every line that matches the
  specification's anchored pattern is matched by the parser with the same two groups,
  and every conforming line is accepted.
\<close>

theorem parsed_populations_of_accepted_lines:
  "(\<exists>colors. length colors = length (filter line_accepted (text_lines t))
      \<and> obj_get (fst (parseStandardFormat e t)) ''populations''
          = JArr (map2 (line_population e) (filter line_accepted (text_lines t)) colors))
   \<and> (spec_line_match line = Some (d, g) \<longrightarrow> re_match line = Some (d, g))
   \<and> (spec_conforming e line \<longrightarrow> line_accepted line)"
proof -
  obtain pops tot k where st: "foldl (parse_line e) ([], Fin 0, 0) (text_lines t) = (pops, tot, k)"
    by (cases "foldl (parse_line e) ([], Fin 0, 0) (text_lines t)") auto
  have "\<exists>colors. length colors = length (filter line_accepted (text_lines t))
      \<and> obj_get (fst (parseStandardFormat e t)) ''populations''
          = JArr (map2 (line_population e) (filter line_accepted (text_lines t)) colors)"
    using parse_fold_populations [OF st] parse_fields(1) [OF st] by auto
  then show ?thesis
    using spec_match_found spec_conforming_accepted by blast
qed

text \<open>A conforming line, with white space around it.\<close>

theorem parsed_populations_of_accepted_lines_witness:
  "spec_line_match '' 3 * (1,2,3,4,5,6,7,8) '' = Some (''3'', ''1,2,3,4,5,6,7,8'')
   \<and> re_match '' 3 * (1,2,3,4,5,6,7,8) '' = Some (''3'', ''1,2,3,4,5,6,7,8'')
   \<and> spec_conforming example_env '' 3 * (1,2,3,4,5,6,7,8) ''
   \<and> line_accepted '' 3 * (1,2,3,4,5,6,7,8) ''"
proof -
  have h1: "spec_line_match '' 3 * (1,2,3,4,5,6,7,8) '' = Some (''3'', ''1,2,3,4,5,6,7,8'')"
    by (simp add: spec_line_match_def match_at_def is_space_def is_digit_def)
  have h2: "spec_conforming example_env '' 3 * (1,2,3,4,5,6,7,8) ''"
    by (simp add: spec_conforming_def h1 example_env_def js_trim_def is_space_def is_digit_def)
  show ?thesis
    using h1 h2
      parsed_populations_of_accepted_lines
        [of "[]" example_env "'' 3 * (1,2,3,4,5,6,7,8) ''" "''3''" "''1,2,3,4,5,6,7,8''"]
    by blast
qed

section \<open>Structured payloads without populations\<close>

text \<open>
  For every object without a \<open>populations\<close> property the handler answers with the error
  response, after it has inserted the record.
\<close>

lemma missing_populations_fails:
  assumes "map_of ob ''populations'' = None"
  shows "ingest cap e (BJson ob) store
           = (server_error TypeError, store_insert cap (stamped e (BJson ob)) store)"
proof -
  have "obj_get (stamped e (BJson ob)) ''populations'' = obj_get ob ''populations''"
    by (simp add: stamped_fields swarm_data_def)
  also have "\<dots> = JUndefined"
    using assms by (simp add: obj_get_def)
  finally have "log_received (stamped e (BJson ob)) = Some TypeError"
    by (simp add: log_received_def)
  then show ?thesis
    by (simp add: ingest_def Let_def)
qed

text \<open>
  Claim C1. The claim is that ingesting a structured payload without \<open>populations\<close> fails
  and leaves the store unchanged. The handler does answer with the failure response, but
  only because the logging that follows the insertion throws: the body
  \<open>{"sessionId": "s1"}\<close>, ingested into the empty store, is answered with status 500 and
  \<open>success: false\<close>, and the store then holds the stamped record.
\<close>

theorem ingest_without_populations:
  "ingest MAX_STORED_DATA e (BJson [(''sessionId'', JStr ''s1'')]) []
     = (server_error TypeError,
        [[(''sessionId'', JStr ''s1''),
          (''serverTimestamp'', JStr (iso_now e)),
          (''id'', JStr (show_nat (date_now e) @ ''_'' @ random_suffix e 0))]])"
  by (simp add: ingest_def Let_def log_received_def stamped_def swarm_data_def obj_get_def
        store_insert_def MAX_STORED_DATA_def)

section \<open>The latest record\<close>

lemma getp_None: "getp v k = None \<longleftrightarrow> v = JUndefined \<or> v = JNull"
  by (cases v) simp_all

lemma project_population_None: "project_population pop = None \<longleftrightarrow> \<not> has_parameters pop"
proof (cases "getp pop ''count''")
  case None
  then have "getp pop ''parameters'' = None" by (simp add: getp_None)
  with None show ?thesis by (simp add: project_population_def has_parameters_def)
next
  case (Some c)
  then obtain ps where ps: "getp pop ''parameters'' = Some ps"
    by (cases "getp pop ''parameters''") (auto simp: getp_None)
  show ?thesis
  proof (cases "ps = JUndefined \<or> ps = JNull")
    case True
    then have "getp ps ''neighborhoodRadius'' = None" by (simp add: getp_None)
    with Some ps True show ?thesis
      by (auto simp: project_population_def has_parameters_def)
  next
    case False
    then have "\<And>k. \<exists>v. getp ps k = Some v"
      using getp_None [of ps] by (metis option.exhaust)
    then obtain f where f: "\<And>k. getp ps k = Some (f k)" by metis
    with Some ps False show ?thesis
      by (simp add: project_population_def has_parameters_def)
  qed
qed

lemma those_None: "those xs = None \<longleftrightarrow> None \<in> set xs"
  by (induction xs) (auto split: option.splits)

lemma project_populations_None: "project_populations v = None \<longleftrightarrow> \<not> projectable v"
proof (cases v)
  case (JArr pops)
  have "those (map project_population pops) = None \<longleftrightarrow> (\<exists>p \<in> set pops. project_population p = None)"
    unfolding those_None by (metis (no_types) image_iff list.set_map)
  also have "\<dots> \<longleftrightarrow> \<not> list_all has_parameters pops"
    by (simp add: project_population_None list_all_iff)
  finally show ?thesis
    using JArr by (simp add: project_populations_def projectable_def)
qed (simp_all add: project_populations_def projectable_def)

lemma has_parameters_population: "has_parameters (population c params color)"
  by (simp add: has_parameters_def population_def obj_get_def)

lemma text_projectable: "projectable (obj_get (stamped e (BText t)) ''populations'')"
proof -
  obtain pops tot k where st: "foldl (parse_line e) ([], Fin 0, 0) (text_lines t) = (pops, tot, k)"
    by (cases "foldl (parse_line e) ([], Fin 0, 0) (text_lines t)") auto
  from parse_fold_populations [OF st] obtain colors where
    "pops = map2 (line_population e) (filter line_accepted (text_lines t)) colors" by blast
  then have "list_all has_parameters pops"
    by (auto simp: list_all_iff line_population_def has_parameters_population)
  then show ?thesis
    by (simp add: stamped_fields swarm_data_def parse_fields [OF st] projectable_def)
qed

text \<open>
  Claim C9, as stated, fails on a non-empty store whose front record the projection cannot
  read. The body \<open>{"populations": [{"count": 1}]}\<close> is ingested with a success response;
  the store is then not empty, and the query for the latest record answers
  \<open>success: false\<close> with status 500, because the entry has no \<open>parameters\<close>.
\<close>

theorem latest_fails_on_stored_record:
  "success (fst (ingest MAX_STORED_DATA example_env
       (BJson [(''populations'', JArr [JObj [(''count'', JNum (Fin 1))]])]) [])) = JBool True
   \<and> snd (ingest MAX_STORED_DATA example_env
       (BJson [(''populations'', JArr [JObj [(''count'', JNum (Fin 1))]])]) []) \<noteq> []
   \<and> success (latest (snd (ingest MAX_STORED_DATA example_env
       (BJson [(''populations'', JArr [JObj [(''count'', JNum (Fin 1))]])]) []))) = JBool False"
  by (simp add: ingest_def Let_def log_received_def stamped_def swarm_data_def obj_get_def
        store_insert_def MAX_STORED_DATA_def success_def latest_def project_populations_def
        project_population_def server_error_def)

text \<open>
  Claim C9, amended. On the empty store the query answers with status 200,
  \<open>success: false\<close> and \<open>data: null\<close>. On a non-empty store whose front record has a
  \<open>populations\<close> array in which every entry has a \<open>parameters\<close> value other than
  \<open>undefined\<close> and \<open>null\<close>, it answers \<open>success: true\<close> with the projection of the front
  record; every record of the text path is such a record. On any other front record it
  answers with the error response.
\<close>

theorem latest_projection:
  "latest [] = (200, [(''success'', JBool False), (''message'', JStr ''no data yet''),
                      (''data'', JNull)])
   \<and> (projectable (obj_get r ''populations'') \<longrightarrow>
        (\<exists>pops. project_populations (obj_get r ''populations'') = Some pops
           \<and> latest (r # older)
               = (200, [(''success'', JBool True),
                        (''timestamp'', obj_get r ''serverTimestamp''),
                        (''sessionId'', obj_get r ''sessionId''),
                        (''totalParticles'', obj_get r ''totalIndividuals''),
                        (''populations'', JArr pops)])))
   \<and> (\<not> projectable (obj_get r ''populations'') \<longrightarrow> latest (r # older) = server_error TypeError)
   \<and> projectable (obj_get (stamped e (BText t)) ''populations'')"
proof -
  have a: "latest [] = (200, [(''success'', JBool False), (''message'', JStr ''no data yet''),
                      (''data'', JNull)])"
    by (simp add: latest_def)
  have b: "\<exists>pops. project_populations (obj_get r ''populations'') = Some pops
           \<and> latest (r # older)
               = (200, [(''success'', JBool True),
                        (''timestamp'', obj_get r ''serverTimestamp''),
                        (''sessionId'', obj_get r ''sessionId''),
                        (''totalParticles'', obj_get r ''totalIndividuals''),
                        (''populations'', JArr pops)])"
    if "projectable (obj_get r ''populations'')"
  proof -
    from that obtain pops where "project_populations (obj_get r ''populations'') = Some pops"
      using project_populations_None [of "obj_get r ''populations''"] by (cases "project_populations (obj_get r ''populations'')") auto
    then show ?thesis by (simp add: latest_def)
  qed
  have c: "latest (r # older) = server_error TypeError"
    if "\<not> projectable (obj_get r ''populations'')"
  proof -
    from that have "project_populations (obj_get r ''populations'') = None"
      using project_populations_None by blast
    then show ?thesis by (simp add: latest_def)
  qed
  show ?thesis using a b c text_projectable by blast
qed

text \<open>A front record that can be projected, and one without \<open>populations\<close>.\<close>

theorem latest_projection_witness:
  "projectable (obj_get [(''populations'', JArr [JObj [(''count'', JNum (Fin 1)),
                                                      (''parameters'', JObj [(''c1'', JNum (Fin 2))])]])]
                  ''populations'')
   \<and> success (latest [[(''populations'', JArr [JObj [(''count'', JNum (Fin 1)),
                                                      (''parameters'', JObj [(''c1'', JNum (Fin 2))])]])]])
       = JBool True
   \<and> \<not> projectable (obj_get [(''sessionId'', JStr ''s1'')] ''populations'')
   \<and> latest [[(''sessionId'', JStr ''s1'')]] = server_error TypeError"
proof -
  have h1: "projectable (obj_get [(''populations'', JArr [JObj [(''count'', JNum (Fin 1)),
                                                      (''parameters'', JObj [(''c1'', JNum (Fin 2))])]])]
                  ''populations'')"
    by (simp add: projectable_def has_parameters_def obj_get_def)
  have h2: "\<not> projectable (obj_get [(''sessionId'', JStr ''s1'')] ''populations'')"
    by (simp add: projectable_def obj_get_def)
  show ?thesis
    using h1 h2
      latest_projection [of "[(''populations'', JArr [JObj [(''count'', JNum (Fin 1)),
                                                      (''parameters'', JObj [(''c1'', JNum (Fin 2))])]])]" "[]"
                            example_env "[]"]
      latest_projection [of "[(''sessionId'', JStr ''s1'')]" "[]" example_env "[]"]
    by (auto simp: success_def obj_get_def)
qed

section \<open>The history\<close>

text \<open>
  Where the limit is omitted, is not a number or is 0, the first \<open>min 10 length\<close> records
  are returned; where it is a positive integer \<open>n\<close>, the first \<open>min n length\<close>.
\<close>

lemma slice0_nat: "slice0 xs (real n) = take n xs"
  by (simp add: slice0_def Let_def min_def)

lemma history_default:
  assumes "parseInt (case q of None \<Rightarrow> ''undefined'' | Some s \<Rightarrow> s) = NaN
           \<or> parseInt (case q of None \<Rightarrow> ''undefined'' | Some s \<Rightarrow> s) = Fin 0"
  shows "history_records q store = take (min 10 (length store)) store"
proof -
  have "history_limit q = 10"
    using assms by (auto simp: history_limit_def)
  then have "history_records q store = slice0 store (real (min 10 (length store)))"
    by (simp add: history_records_def min_def)
  then show ?thesis by (simp add: slice0_nat)
qed

lemma history_omitted: "history_records None store = take (min 10 (length store)) store"
  by (rule history_default) (simp add: parseInt_def Let_def is_space_def is_radix_digit_def digit_val_def)

lemma history_positive:
  assumes "parseInt s = Fin (real n)" and "0 < n"
  shows "history_records (Some s) store = take (min n (length store)) store"
proof -
  have "history_limit (Some s) = real n"
    using assms by (simp add: history_limit_def)
  then have "history_records (Some s) store = slice0 store (real (min n (length store)))"
    by (simp add: history_records_def min_def)
  then show ?thesis by (simp add: slice0_nat)
qed

text \<open>
  Claim C6. The claim is that a limit \<open>\<le> 0\<close> gives the first \<open>min 10 length\<close> records. A
  negative limit is truthy, so \<open>|| 10\<close> does not replace it, and \<open>slice(0, -5)\<close> drops the last
  five records: of eight stored records the query with \<open>limit=-5\<close> returns the first three,
  not all eight.
\<close>

theorem history_negative_limit:
  "history_records (Some ''-5'') [r1, r2, r3, r4, r5, r6, r7, r8] = [r1, r2, r3]"
  by (simp add: history_records_def history_limit_def slice0_def parseInt_def Let_def
        is_space_def is_radix_digit_def digit_val_def digits_value_def)

section \<open>The statistics\<close>






end
